theory Spec2Isabelle
  imports Complex_Main
begin

section \<open>Python values used by main.py\<close>

text \<open>
  A Python \<open>str\<close> is modelled as a \<open>string\<close>: one \<open>char\<close> stands for one character of
  the Python string, so \<open>length\<close> is Python's \<open>len\<close>, \<open>take n\<close> is the slice \<open>[:n]\<close> and
  \<open>count_list s c\<close> is \<open>s.count(c)\<close> for a one-character \<open>c\<close>.

  Exceptions are values. Every exception that the library calls of main.py raise in the
  worker thread is a subclass of \<open>Exception\<close>; the handlers of main.py never look at the
  class, so the constructors below only name the ones the model itself raises.
\<close>

datatype pyexc =
  ValueError | AttributeError | TypeError | KeyError | IndexError | RequestException

text \<open>\<open>sub in s\<close> for strings.\<close>

fun startswith :: "string \<Rightarrow> string \<Rightarrow> bool" where
  "startswith s [] = True"
| "startswith [] (p # ps) = False"
| "startswith (c # cs) (p # ps) = (c = p \<and> startswith cs ps)"

fun py_in :: "string \<Rightarrow> string \<Rightarrow> bool" where
  "py_in sub [] = (sub = [])"
| "py_in sub (c # cs) = (startswith (c # cs) sub \<or> py_in sub cs)"

text \<open>
  \<open>str.isspace\<close> on one character, for the characters a \<open>char\<close> can hold:
  TAB, LF, VT, FF, CR, FS, GS, RS, US, SPACE, NEL and NBSP.
\<close>

definition py_isspace :: "char \<Rightarrow> bool" where
  "py_isspace c = ((of_char c :: nat) \<in> {9, 10, 11, 12, 13, 28, 29, 30, 31, 32, 133, 160})"

text \<open>\<open>s.strip()\<close> and \<open>s.strip(chars)\<close>: drop the matching characters at both ends.\<close>

definition strip_where :: "(char \<Rightarrow> bool) \<Rightarrow> string \<Rightarrow> string" where
  "strip_where P s = rev (dropWhile P (rev (dropWhile P s)))"

definition py_strip :: "string \<Rightarrow> string" where
  "py_strip s = strip_where py_isspace s"

definition py_strip_chars :: "string \<Rightarrow> string \<Rightarrow> string" where
  "py_strip_chars chars s = strip_where (\<lambda>c. c \<in> set chars) s"

text \<open>\<open>sep.join(xs)\<close>.\<close>

fun py_join :: "string \<Rightarrow> string list \<Rightarrow> string" where
  "py_join sep [] = []"
| "py_join sep [x] = x"
| "py_join sep (x # y # ys) = x @ sep @ py_join sep (y # ys)"

text \<open>\<open>str(n)\<close> for a natural number.\<close>

function str_nat :: "nat \<Rightarrow> string" where
  "str_nat n =
     (if n < 10 then [char_of (48 + n)]
      else str_nat (n div 10) @ [char_of (48 + n mod 10)])"
  by pat_completeness auto
termination
  by (relation "measure id") auto

declare str_nat.simps [simp del]

subsection \<open>Decoded JSON\<close>

text \<open>
  What \<open>requests.get(...).json()\<close> returns: \<open>None\<close>, a bool, a number, a str, a list or a
  dict. A dict keeps its keys in order; a lookup takes the entry \<open>map_of\<close> finds.
\<close>

datatype json =
  JNull | JBool bool | JNum rat | JStr string | JArr "json list" | JObj "(string \<times> json) list"

text \<open>\<open>obj.get(key, default)\<close>: only a dict has the method.\<close>

fun py_get :: "json \<Rightarrow> string \<Rightarrow> json \<Rightarrow> pyexc + json" where
  "py_get (JObj kvs) k d = Inr (case map_of kvs k of None \<Rightarrow> d | Some v \<Rightarrow> v)"
| "py_get _ k d = Inl AttributeError"

text \<open>\<open>for item in v\<close>: a list gives its elements, a dict its keys, a str its characters.\<close>

fun py_iter :: "json \<Rightarrow> pyexc + json list" where
  "py_iter (JArr xs) = Inr xs"
| "py_iter (JObj kvs) = Inr (map (\<lambda>kv. JStr (fst kv)) kvs)"
| "py_iter (JStr s) = Inr (map (\<lambda>c. JStr [c]) s)"
| "py_iter _ = Inl TypeError"

text \<open>Truth value of \<open>if v:\<close>.\<close>

fun truthy :: "json \<Rightarrow> bool" where
  "truthy JNull = False"
| "truthy (JBool b) = b"
| "truthy (JNum r) = (r \<noteq> 0)"
| "truthy (JStr s) = (s \<noteq> [])"
| "truthy (JArr xs) = (xs \<noteq> [])"
| "truthy (JObj kvs) = (kvs \<noteq> [])"

text \<open>\<open>v[:n]\<close>: a str and a list can be sliced, the other values raise.\<close>

fun py_slice_to :: "nat \<Rightarrow> json \<Rightarrow> pyexc + json" where
  "py_slice_to n (JStr s) = Inr (JStr (take n s))"
| "py_slice_to n (JArr xs) = Inr (JArr (take n xs))"
| "py_slice_to n _ = Inl TypeError"

subsection \<open>Parsed HTML\<close>

text \<open>
  What \<open>BeautifulSoup(res.text, 'html.parser')\<close> returns, as far as main.py looks at it:
  a forest of strings and tags with a name, attributes and children. A string of the tree is
  an object of a class that the parser chose: \<open>NavigableString\<close> for ordinary text, \<open>CData\<close>,
  \<open>Comment\<close>, \<open>Declaration\<close>, \<open>Doctype\<close> and \<open>ProcessingInstruction\<close> for markup of these
  kinds, and for text inside a \<open>script\<close>, \<open>style\<close>, \<open>template\<close>, \<open>rt\<close> or \<open>rp\<close> tag the
  classes \<open>Script\<close>, \<open>Stylesheet\<close>, \<open>TemplateString\<close>, \<open>RubyTextString\<close> and
  \<open>RubyParenthesisString\<close>.
\<close>

datatype strclass =
  NavigableString | CData | Comment | Declaration | Doctype | ProcessingInstruction
| Script | Stylesheet | TemplateString | RubyTextString | RubyParenthesisString

datatype node = Text strclass string | Element string "(string \<times> string) list" "node list"

text \<open>\<open>for noise in soup(tags): noise.decompose()\<close>: every tag of these names goes, with its subtree.\<close>

fun decompose :: "string list \<Rightarrow> node list \<Rightarrow> node list" where
  "decompose tags [] = []"
| "decompose tags (Text c s # ns) = Text c s # decompose tags ns"
| "decompose tags (Element t attrs cs # ns) =
     (if t \<in> set tags then decompose tags ns
      else Element t attrs (decompose tags cs) # decompose tags ns)"

text \<open>\<open>soup.find_all(...)\<close>: the matching tags in document order, nested ones included.\<close>

fun find_all :: "(string \<Rightarrow> (string \<times> string) list \<Rightarrow> bool) \<Rightarrow> node list \<Rightarrow> node list" where
  "find_all P [] = []"
| "find_all P (Text c s # ns) = find_all P ns"
| "find_all P (Element t attrs cs # ns) =
     (if P t attrs then [Element t attrs cs] else []) @ find_all P cs @ find_all P ns"

text \<open>
  \<open>tag.get_text()\<close> and \<open>tag.text\<close>: the strings below the tag whose class is one of the
  tag's interesting classes, concatenated in document order. For a \<open>script\<close>, \<open>style\<close>,
  \<open>template\<close>, \<open>rt\<close> or \<open>rp\<close> tag that is the class of its own strings; for every other tag
  it is \<open>NavigableString\<close> and \<open>CData\<close>, so the text of an \<open>a\<close> or a \<open>p\<close> leaves out
  comments and what stands inside a script, a style sheet, a template or a ruby annotation.
\<close>

definition interesting_string_types :: "string \<Rightarrow> strclass list" where
  "interesting_string_types name =
     (if name = ''rt'' then [RubyTextString]
      else if name = ''rp'' then [RubyParenthesisString]
      else if name = ''style'' then [Stylesheet]
      else if name = ''script'' then [Script]
      else if name = ''template'' then [TemplateString]
      else [NavigableString, CData])"

fun texts :: "strclass list \<Rightarrow> node list \<Rightarrow> string" where
  "texts types [] = []"
| "texts types (Text c s # ns) = (if c \<in> set types then s else []) @ texts types ns"
| "texts types (Element t attrs cs # ns) = texts types cs @ texts types ns"

fun get_text :: "node \<Rightarrow> string" where
  "get_text (Element t attrs cs) = texts (interesting_string_types t) cs"
| "get_text (Text c s) = (if c \<in> {NavigableString, CData} then s else [])"

text \<open>\<open>tag['href']\<close>: KeyError when the attribute is missing.\<close>

fun attr :: "node \<Rightarrow> string \<Rightarrow> pyexc + string" where
  "attr (Element t attrs cs) k = (case map_of attrs k of None \<Rightarrow> Inl KeyError | Some v \<Rightarrow> Inr v)"
| "attr (Text c s) k = Inl TypeError"

section \<open>System core state\<close>

text \<open>A headline candidate, \<open>{"title": ..., "link": ...}\<close>. On the API path the title is
  whatever JSON value the \<open>headline\<close> key holds.\<close>

record candidate =
  title :: json
  link :: string

text \<open>An entry of \<open>INTEL_CACHE\<close>: the candidate's keys and the ones \<open>background_worker\<close> adds.\<close>

record intel = candidate +
  source :: string
  sector :: string
  summary :: string
  type :: string
  time :: string

text \<open>A value of \<open>TARGET_GRID\<close>: \<open>{"type": ..., "paths": {sector: url}}\<close>. Both dicts are kept as
  association lists in insertion order, the order \<open>.items()\<close> iterates in.\<close>

record outlet =
  otype :: string
  paths :: "(string \<times> string) list"

text \<open>\<open>d[k] = v\<close> and \<open>del d[k]\<close> on such a dict: an existing key keeps its place, a new
  key goes to the end.\<close>

fun dict_set :: "('k \<times> 'v) list \<Rightarrow> 'k \<Rightarrow> 'v \<Rightarrow> ('k \<times> 'v) list" where
  "dict_set [] k v = [(k, v)]"
| "dict_set (kv # kvs) k v = (if fst kv = k then (k, v) # kvs else kv # dict_set kvs k v)"

definition dict_del :: "('k \<times> 'v) list \<Rightarrow> 'k \<Rightarrow> ('k \<times> 'v) list" where
  "dict_del kvs k = filter (\<lambda>kv. fst kv \<noteq> k) kvs"

text \<open>The registry handlers \<open>add_paper\<close> (main.py:234-240) and \<open>delete_paper\<close> (main.py:242-245).\<close>

definition add_paper ::
  "string \<Rightarrow> string \<Rightarrow> string \<Rightarrow> string \<Rightarrow> string \<Rightarrow> string
     \<Rightarrow> (string \<times> outlet) list \<Rightarrow> (string \<times> outlet) list" where
  "add_paper name ty pol eco natl intl_url grid =
     (if ty = ''national''
      then dict_set grid name
             \<lparr>otype = ''national'',
              paths = [(''Politics'', pol), (''Economy'', eco), (''National'', natl)]\<rparr>
      else dict_set grid name
             \<lparr>otype = ''international'', paths = [(''International'', intl_url)]\<rparr>)"

definition delete_paper :: "string \<Rightarrow> (string \<times> outlet) list \<Rightarrow> (string \<times> outlet) list" where
  "delete_paper name grid = (if name \<in> set (map fst grid) then dict_del grid name else grid)"

datatype handler_call =
  AddPaper string string string string string string
| DeletePaper string

fun apply_call :: "(string \<times> outlet) list \<Rightarrow> handler_call \<Rightarrow> (string \<times> outlet) list" where
  "apply_call grid (AddPaper name ty pol eco natl intl_url) =
     add_paper name ty pol eco natl intl_url grid"
| "apply_call grid (DeletePaper name) = delete_paper name grid"

subsection \<open>The world outside main.py\<close>

text \<open>
  The libraries and the network are parameters. Every effect of the worker thread (a log
  line, a request, a run of the model) happens at an instant, counted by \<open>clock\<close>; what the
  network, the model and the wall clock answer may differ from one instant to the next.
  \<open>handler_calls E t\<close> are the registry handlers that the web server runs at instant \<open>t\<close>,
  while the worker is busy.
\<close>

record parsed_url =
  scheme :: string
  netloc :: string
  path :: string

record env =
  urlparse :: "string \<Rightarrow> pyexc + parsed_url"
  get_json :: "nat \<Rightarrow> string \<Rightarrow> pyexc + json"
  get_html :: "nat \<Rightarrow> string \<Rightarrow> pyexc + node list"
  summarizer :: "nat \<Rightarrow> string \<Rightarrow> pyexc + (string \<times> string) list list"
  strftime_hms :: "nat \<Rightarrow> string"
  strftime_hm :: "nat \<Rightarrow> string"
  py_str :: "json \<Rightarrow> string"
  upper :: "string \<Rightarrow> string"
  handler_calls :: "nat \<Rightarrow> handler_call list"

text \<open>
  The globals of main.py. \<open>INTEL_CACHE\<close> is a name bound to a list object, and the worker
  fills another list object, \<open>temp_cache\<close>, in place before it binds the global name to it:
  \<open>lists\<close> holds the list objects of cache entries by address, \<open>fresh\<close> is the next unused
  address, and \<open>INTEL_CACHE\<close> is the address the global name is bound to. Two traces are kept
  beside the globals: the URLs requested and the texts handed to the model, in order.
\<close>

record world =
  TARGET_GRID :: "(string \<times> outlet) list"
  SYSTEM_LOGS :: "string list"
  lists :: "nat \<Rightarrow> intel list"
  fresh :: nat
  INTEL_CACHE :: nat
  is_model_ready :: bool
  trigger_sync_now :: bool
  clock :: nat
  fetched :: "string list"
  model_inputs :: "string list"

text \<open>What a reader finds under the global name: the items of the object it is bound to.\<close>

definition current_snapshot :: "world \<Rightarrow> intel list" where
  "current_snapshot w = lists w (INTEL_CACHE w)"

text \<open>The list display \<open>[]\<close> makes a new, empty list object.\<close>

definition new_list :: "world \<Rightarrow> nat \<times> world" where
  "new_list w = (fresh w, w\<lparr>lists := (lists w)(fresh w := []), fresh := Suc (fresh w)\<rparr>)"

text \<open>\<open>xs.append(x)\<close> changes the object in place.\<close>

definition list_append :: "nat \<Rightarrow> intel \<Rightarrow> world \<Rightarrow> world" where
  "list_append a x w = w\<lparr>lists := (lists w)(a := lists w a @ [x])\<rparr>"

definition tick :: "env \<Rightarrow> world \<Rightarrow> world" where
  "tick E w =
     w\<lparr>TARGET_GRID := foldl apply_call (TARGET_GRID w) (handler_calls E (clock w)),
       clock := clock w + 1\<rparr>"

text \<open>\<open>add_log\<close> (main.py:39-45): at most 30 lines are kept, the oldest goes first.\<close>

definition add_log :: "env \<Rightarrow> string \<Rightarrow> world \<Rightarrow> world" where
  "add_log E msg w =
     (let t = strftime_hms E (clock w);
          entry = ''['' @ t @ ''] '' @ msg;
          logs = SYSTEM_LOGS w @ [entry]
      in tick E (w\<lparr>SYSTEM_LOGS := (if length logs > 30 then tl logs else logs)\<rparr>))"

definition requests_get_json :: "env \<Rightarrow> string \<Rightarrow> world \<Rightarrow> (pyexc + json) \<times> world" where
  "requests_get_json E url w =
     (get_json E (clock w) url, tick E (w\<lparr>fetched := fetched w @ [url]\<rparr>))"

definition requests_get_html :: "env \<Rightarrow> string \<Rightarrow> world \<Rightarrow> (pyexc + node list) \<times> world" where
  "requests_get_html E url w =
     (get_html E (clock w) url, tick E (w\<lparr>fetched := fetched w @ [url]\<rparr>))"

definition run_summarizer ::
  "env \<Rightarrow> string \<Rightarrow> world \<Rightarrow> (pyexc + (string \<times> string) list list) \<times> world" where
  "run_summarizer E txt w =
     (summarizer E (clock w) txt, tick E (w\<lparr>model_inputs := model_inputs w @ [txt]\<rparr>))"

section \<open>Heuristic deep scraper\<close>

text \<open>
  The API loop of \<open>universal_intercept\<close> (main.py:73-76). \<open>news\<close> is a list that the loop
  appends to in place, so when an item raises, what was appended before stays: the loop
  returns the list and the exception, if any.
\<close>

fun api_collect :: "env \<Rightarrow> candidate list \<Rightarrow> json list \<Rightarrow> candidate list \<times> pyexc option" where
  "api_collect E news [] = (news, None)"
| "api_collect E news (item # items) =
     (case py_get item ''story'' (JObj []) of
        Inl e \<Rightarrow> (news, Some e)
      | Inr story \<Rightarrow>
          (case py_get story ''headline'' JNull of
             Inl e \<Rightarrow> (news, Some e)
           | Inr headline \<Rightarrow>
               (if truthy headline
                then (case py_get story ''slug'' JNull of
                        Inl e \<Rightarrow> (news, Some e)
                      | Inr slug \<Rightarrow>
                          api_collect E
                            (news @ [\<lparr>title = headline,
                                      link = ''https://www.prothomalo.com/'' @ py_str E slug\<rparr>])
                            items)
                else api_collect E news items)))"

text \<open>The collection slug and the API address (main.py:68-71).\<close>

definition collection_slug :: "string \<Rightarrow> parsed_url \<Rightarrow> string" where
  "collection_slug url p =
     (if py_in ''business'' url \<or> py_in ''economy'' url then ''business''
      else py_strip_chars ''/'' (path p))"

definition collection_url :: "string \<Rightarrow> string" where
  "collection_url slug =
     ''https://www.prothomalo.com/api/v1/collections/'' @ slug @ ''?offset=0&limit=5''"

text \<open>The request and the loop of the API mode (main.py:71-76), entered with \<open>news = []\<close>.\<close>

definition api_mode :: "env \<Rightarrow> string \<Rightarrow> world \<Rightarrow> (candidate list \<times> pyexc option) \<times> world" where
  "api_mode E slug w =
     (case requests_get_json E (collection_url slug) w of
        (Inl e, w') \<Rightarrow> (([], Some e), w')
      | (Inr data, w') \<Rightarrow>
          (case py_get data ''items'' (JArr []) of
             Inl e \<Rightarrow> (([], Some e), w')
           | Inr v \<Rightarrow>
               (case py_iter v of
                  Inl e \<Rightarrow> (([], Some e), w')
                | Inr items \<Rightarrow> (api_collect E [] items, w'))))"

text \<open>The test of main.py:97 on the stripped text of an anchor.\<close>

definition headline_heuristic :: "string \<Rightarrow> bool" where
  "headline_heuristic text = (length text > 35 \<and> count_list text CHR '' '' \<ge> 4)"

text \<open>Resolving a relative link against the page's origin (main.py:99-101).\<close>

definition absolute_href :: "env \<Rightarrow> string \<Rightarrow> string \<Rightarrow> pyexc + string" where
  "absolute_href E url href =
     (if \<not> startswith href ''http''
      then (case urlparse E url of
              Inl e \<Rightarrow> Inl e
            | Inr p \<Rightarrow>
                Inr (scheme p @ ''://'' @ netloc p
                     @ (if startswith href ''/'' then href else ''/'' @ href)))
      else Inr href)"

text \<open>The body of the loop over the links (main.py:92-104), for one anchor.\<close>

definition scan_anchor :: "env \<Rightarrow> string \<Rightarrow> candidate list \<Rightarrow> node \<Rightarrow> pyexc + candidate list" where
  "scan_anchor E url news a =
     (let title = py_strip (get_text a)
      in if headline_heuristic title
         then (case attr a ''href'' of
                 Inl e \<Rightarrow> Inl e
               | Inr href \<Rightarrow>
                   (case absolute_href E url href of
                      Inl e \<Rightarrow> Inl e
                    | Inr href' \<Rightarrow>
                        Inr (if href' \<in> set (map link news) then news
                             else news @ [\<lparr>title = JStr title, link = href'\<rparr>])))
         else Inr news)"

text \<open>The loop itself with its \<open>break\<close> (main.py:91-106).\<close>

fun scan_links ::
  "env \<Rightarrow> string \<Rightarrow> candidate list \<Rightarrow> node list \<Rightarrow> candidate list \<times> pyexc option" where
  "scan_links E url news [] = (news, None)"
| "scan_links E url news (a # links) =
     (case scan_anchor E url news a of
        Inl e \<Rightarrow> (news, Some e)
      | Inr news' \<Rightarrow>
          (if length news' \<ge> 6 then (news', None) else scan_links E url news' links))"

definition noise_tags :: "string list" where
  "noise_tags = [''script'', ''style'', ''nav'', ''footer'', ''header'']"

definition is_link :: "string \<Rightarrow> (string \<times> string) list \<Rightarrow> bool" where
  "is_link t attrs = (t = ''a'' \<and> map_of attrs ''href'' \<noteq> None)"

text \<open>The \<open>try\<close> block of the heuristic scrape mode (main.py:82-106).\<close>

definition heuristic_mode ::
  "env \<Rightarrow> string \<Rightarrow> candidate list \<Rightarrow> world \<Rightarrow> (candidate list \<times> pyexc option) \<times> world" where
  "heuristic_mode E url news w =
     (case requests_get_html E url w of
        (Inl e, w') \<Rightarrow> ((news, Some e), w')
      | (Inr soup, w') \<Rightarrow>
          (scan_links E url news (find_all is_link (decompose noise_tags soup)), w'))"

text \<open>The heuristic scrape mode with its handler and the final \<open>return news\<close> (main.py:81-111).\<close>

definition scrape_mode ::
  "env \<Rightarrow> string \<Rightarrow> string \<Rightarrow> candidate list \<Rightarrow> world \<Rightarrow> (pyexc + candidate list) \<times> world" where
  "scrape_mode E url source_name news w =
     (case heuristic_mode E url news w of
        ((news', None), w') \<Rightarrow> (Inr news', w')
      | ((news', Some e), w') \<Rightarrow>
          (Inr news',
           add_log E (''INTERCEPT_FAILURE: '' @ source_name @ '' unreachable.'') w'))"

text \<open>\<open>universal_intercept\<close> (main.py:61-111). \<open>urlparse\<close> on line 68 is called before the
  \<open>try\<close> of the API mode.\<close>

definition universal_intercept ::
  "env \<Rightarrow> string \<Rightarrow> string \<Rightarrow> world \<Rightarrow> (pyexc + candidate list) \<times> world" where
  "universal_intercept E url source_name w =
     (if url = [] then (Inr [], w)
      else if py_in ''prothomalo'' url
      then (case urlparse E url of
              Inl e \<Rightarrow> (Inl e, w)
            | Inr p \<Rightarrow>
                (case api_mode E (collection_slug url p) w of
                   ((news, None), w') \<Rightarrow>
                     (if news \<noteq> [] then (Inr news, w')
                      else scrape_mode E url source_name news w')
                 | ((news, Some e), w') \<Rightarrow> scrape_mode E url source_name news w'))
      else scrape_mode E url source_name [] w)"

section \<open>AI synthesis kernel\<close>

text \<open>The \<open>try\<close> block of \<open>get_deep_summary\<close> (main.py:116-125).\<close>

definition insufficient_notice :: string where
  "insufficient_notice =
     ''Dossier Notice: Link contains insufficient textual data for AI synthesis.''"

definition article_text :: "node list \<Rightarrow> string" where
  "article_text soup =
     py_join '' '' (map get_text (take 8 (find_all (\<lambda>t attrs. t = ''p'') soup)))"

definition deep_summary_body :: "env \<Rightarrow> string \<Rightarrow> world \<Rightarrow> (pyexc + string) \<times> world" where
  "deep_summary_body E url w =
     (case requests_get_html E url w of
        (Inl e, w') \<Rightarrow> (Inl e, w')
      | (Inr soup, w') \<Rightarrow>
          (let txt = article_text soup
           in if length txt < 200 then (Inr insufficient_notice, w')
              else (case run_summarizer E (take 2500 txt) w' of
                      (Inl e, w'') \<Rightarrow> (Inl e, w'')
                    | (Inr [], w'') \<Rightarrow> (Inl IndexError, w'')
                    | (Inr (d # ds), w'') \<Rightarrow>
                        (case map_of d ''summary_text'' of
                           None \<Rightarrow> (Inl KeyError, w'')
                         | Some s \<Rightarrow> (Inr s, w'')))))"

text \<open>\<open>get_deep_summary\<close> (main.py:113-126): the readiness check, and the bare \<open>except\<close>
  around the body.\<close>

definition get_deep_summary :: "env \<Rightarrow> string \<Rightarrow> world \<Rightarrow> (pyexc + string) \<times> world" where
  "get_deep_summary E url w =
     (if \<not> is_model_ready w then (Inr ''AI CORE INITIALIZING. PREVIEW UNAVAILABLE.'', w)
      else (case deep_summary_body E url w of
              (Inl e, w') \<Rightarrow> (Inr ''Deep Link Analysis Interrupted.'', w')
            | (Inr s, w') \<Rightarrow> (Inr s, w')))"

section \<open>Sequential background cache\<close>

text \<open>
  The loop over the first three headlines of one section (main.py:141-148). \<open>temp_cache\<close>
  is the address of the buffer; an exception leaves the loop with what was appended so far.
\<close>

fun synthesize ::
  "env \<Rightarrow> string \<Rightarrow> string \<Rightarrow> string \<Rightarrow> nat \<Rightarrow> candidate list \<Rightarrow> world
     \<Rightarrow> pyexc option \<times> world" where
  "synthesize E name sec ty temp_cache [] w = (None, w)"
| "synthesize E name sec ty temp_cache (item # items) w =
     (case py_slice_to 40 (title item) of
        Inl e \<Rightarrow> (Some e, w)
      | Inr t \<Rightarrow>
          (case get_deep_summary E (link item)
                  (add_log E (''SYNTHESIZING: '' @ py_str E t @ ''...'') w) of
             (Inl e, w') \<Rightarrow> (Some e, w')
           | (Inr s, w') \<Rightarrow>
               synthesize E name sec ty temp_cache items
                 (list_append temp_cache
                    \<lparr>title = title item, link = link item, source = name,
                     sector = sec, summary = s, type = ty,
                     time = strftime_hm E (clock w')\<rparr> w')))"

text \<open>The loop over the sections of one outlet (main.py:137-148).\<close>

fun sectors_loop ::
  "env \<Rightarrow> string \<Rightarrow> string \<Rightarrow> nat \<Rightarrow> (string \<times> string) list \<Rightarrow> world
     \<Rightarrow> pyexc option \<times> world" where
  "sectors_loop E name ty temp_cache [] w = (None, w)"
| "sectors_loop E name ty temp_cache (su # rest) w =
     (case universal_intercept E (snd su) name
             (add_log E (''INTERCEPTING: '' @ upper E name @ '' -> '' @ upper E (fst su)) w) of
        (Inl e, w') \<Rightarrow> (Some e, w')
      | (Inr headlines, w') \<Rightarrow>
          (case synthesize E name (fst su) ty temp_cache (take 3 headlines) w' of
             (Some e, w'') \<Rightarrow> (Some e, w'')
           | (None, w'') \<Rightarrow> sectors_loop E name ty temp_cache rest w''))"

text \<open>The loop over the copied registry (main.py:136-148).\<close>

fun outlets_loop ::
  "env \<Rightarrow> nat \<Rightarrow> (string \<times> outlet) list \<Rightarrow> world \<Rightarrow> pyexc option \<times> world" where
  "outlets_loop E temp_cache [] w = (None, w)"
| "outlets_loop E temp_cache (nc # rest) w =
     (case sectors_loop E (fst nc) (otype (snd nc)) temp_cache (paths (snd nc)) w of
        (Some e, w') \<Rightarrow> (Some e, w')
      | (None, w') \<Rightarrow> outlets_loop E temp_cache rest w')"

text \<open>
  One turn of the \<open>while True\<close> of \<open>background_worker\<close>, up to the log line after the
  publication (main.py:132-151). \<open>temp_cache = []\<close> binds the local name to a new object.
  \<open>current_targets = dict(TARGET_GRID)\<close> copies the outer dict; the inner dicts are shared
  with the registry, but no handler changes an inner dict (\<open>add_paper\<close> stores a new one), so
  the copy is the list of values it held at that instant. \<open>INTEL_CACHE = temp_cache\<close> binds
  the global name to the buffer. An exception that leaves the body ends the thread: the
  result is \<open>Some e\<close> and nothing is published.

  The loops and the publication (main.py:136-151):
\<close>

definition cycle_body ::
  "env \<Rightarrow> nat \<Rightarrow> (string \<times> outlet) list \<Rightarrow> world \<Rightarrow> pyexc option \<times> world" where
  "cycle_body E temp_cache current_targets w =
     (case outlets_loop E temp_cache current_targets w of
        (Some e, w') \<Rightarrow> (Some e, w')
      | (None, w') \<Rightarrow>
          (let w'' = w'\<lparr>INTEL_CACHE := temp_cache\<rparr>
           in (None,
               add_log E (''SYNC_ENGINE: CACHE REFRESHED. ''
                          @ str_nat (length (current_snapshot w'')) @ '' PACKETS READY.'')
                 w'')))"

text \<open>The three statements that open a turn (main.py:132-134): the new buffer, the log line
  and the copy of the registry.\<close>

definition cycle_entry :: "env \<Rightarrow> world \<Rightarrow> nat \<times> (string \<times> outlet) list \<times> world" where
  "cycle_entry E w =
     (case new_list w of
        (temp_cache, w0) \<Rightarrow>
          (let w1 = add_log E ''SYNC_ENGINE: PROBING GLOBAL TARGET GRID...'' w0;
               current_targets = TARGET_GRID w1
           in (temp_cache, current_targets, w1)))"

definition sync_cycle :: "env \<Rightarrow> world \<Rightarrow> pyexc option \<times> world" where
  "sync_cycle E w =
     (case cycle_entry E w of
        (temp_cache, current_targets, w1) \<Rightarrow> cycle_body E temp_cache current_targets w1)"

section \<open>The query endpoint\<close>

text \<open>\<open>fetch_news\<close> (main.py:180-184) filters the list under the global name by the UI
  selection.\<close>

definition fetch_news :: "world \<Rightarrow> string list \<Rightarrow> string list \<Rightarrow> intel list \<times> string list" where
  "fetch_news w selected_sources selected_sectors =
     (filter (\<lambda>n. source n \<in> set selected_sources
                  \<and> (sector n \<in> set selected_sectors \<or> type n = ''international''))
             (current_snapshot w),
      SYSTEM_LOGS w)"

section \<open>Manual trigger\<close>

text \<open>
  \<open>force_sync\<close> (main.py:193-197) sets the \<open>threading.Event\<close>; the flag of an event is one
  boolean, whatever the number of \<open>set()\<close> calls.
\<close>

definition force_sync :: "env \<Rightarrow> world \<Rightarrow> world" where
  "force_sync E w =
     (add_log E ''SYSTEM: MANUAL SYNC OVERRIDE ACTIVATED.'' w)\<lparr>trigger_sync_now := True\<rparr>"

text \<open>
  The two statements that end a turn of the worker's loop (main.py:154-155), and the calls of
  the handler that fall between them. \<open>WaitReturns\<close> is the return of
  \<open>trigger_sync_now.wait(timeout=...)\<close>: with the flag set the wait was ended by the trigger,
  otherwise by the timeout. \<open>Clears\<close> is \<open>trigger_sync_now.clear()\<close>. The number counts the
  waits that the trigger ended, that is, the cycles started by a manual trigger.
\<close>

datatype trigger_step = ForceSync | WaitReturns | Clears

fun trigger_exec :: "env \<Rightarrow> trigger_step \<Rightarrow> nat \<times> world \<Rightarrow> nat \<times> world" where
  "trigger_exec E ForceSync (k, w) = (k, force_sync E w)"
| "trigger_exec E WaitReturns (k, w) = (if trigger_sync_now w then Suc k else k, w)"
| "trigger_exec E Clears (k, w) = (k, w\<lparr>trigger_sync_now := False\<rparr>)"

fun trigger_run :: "env \<Rightarrow> trigger_step list \<Rightarrow> nat \<times> world \<Rightarrow> nat \<times> world" where
  "trigger_run E [] s = s"
| "trigger_run E (st # sts) s = trigger_run E sts (trigger_exec E st s)"

section \<open>The specification's words\<close>


text \<open>The space-separated words of a text, as the specification words the headline rule.\<close>

fun split_space :: "string \<Rightarrow> string list" where
  "split_space [] = [[]]"
| "split_space (c # cs) =
     (if c = CHR '' '' then [] # split_space cs
      else (case split_space cs of [] \<Rightarrow> [[c]] | w # ws \<Rightarrow> (c # w) # ws))"

definition spec_space_separated_words :: "string \<Rightarrow> string list" where
  "spec_space_separated_words s = filter (\<lambda>w. w \<noteq> []) (split_space s)"


section \<open>What a step leaves alone\<close>


text \<open>What most steps of the worker leave alone: the items of the object at address \<open>a\<close>,
  the next unused address, the binding of the global name and the trigger.\<close>

definition kept :: "nat \<Rightarrow> world \<Rightarrow> world \<Rightarrow> bool" where
  "kept a w w' =
     (lists w' a = lists w a \<and> fresh w' = fresh w \<and> INTEL_CACHE w' = INTEL_CACHE w
      \<and> trigger_sync_now w' = trigger_sync_now w)"

section \<open>Fixtures\<close>

text \<open>
  \<open>urlparse\<close> on addresses of the shape \<open>scheme://netloc/path\<close>, as \<open>urllib.parse\<close> splits
  them: the netloc ends at the first \<open>/\<close>, \<open>?\<close> or \<open>#\<close>, and a netloc with one square bracket
  but not the other raises \<open>ValueError\<close> (\<open>Invalid IPv6 URL\<close>).
\<close>

fun partition_at :: "string \<Rightarrow> string \<Rightarrow> (string \<times> string) option" where
  "partition_at sep [] = None"
| "partition_at sep (c # cs) =
     (if startswith (c # cs) sep then Some ([], drop (length sep) (c # cs))
      else map_option (\<lambda>ab. (c # fst ab, snd ab)) (partition_at sep cs))"

definition demo_urlparse :: "string \<Rightarrow> pyexc + parsed_url" where
  "demo_urlparse url =
     (case partition_at ''://'' url of
        None \<Rightarrow> Inr \<lparr>scheme = [], netloc = [], path = url\<rparr>
      | Some sr \<Rightarrow>
          (let nl = takeWhile (\<lambda>c. c \<notin> set ''/?#'') (snd sr);
               pth = takeWhile (\<lambda>c. c \<notin> set ''?#'')
                       (dropWhile (\<lambda>c. c \<notin> set ''/?#'') (snd sr))
           in if (CHR ''['' \<in> set nl) \<noteq> (CHR '']'' \<in> set nl) then Inl ValueError
              else Inr \<lparr>scheme = fst sr, netloc = nl, path = pth\<rparr>))"

text \<open>\<open>str()\<close> on the JSON values the fixtures use.\<close>

fun demo_str :: "json \<Rightarrow> string" where
  "demo_str (JStr s) = s"
| "demo_str JNull = ''None''"
| "demo_str (JBool b) = (if b then ''True'' else ''False'')"
| "demo_str _ = ''?''"

definition demo_env ::
  "(nat \<Rightarrow> string \<Rightarrow> pyexc + json) \<Rightarrow> (nat \<Rightarrow> string \<Rightarrow> pyexc + node list)
     \<Rightarrow> (nat \<Rightarrow> handler_call list) \<Rightarrow> env" where
  "demo_env J H C =
     \<lparr>urlparse = demo_urlparse, get_json = J, get_html = H,
      summarizer = (\<lambda>t txt. Inr [[(''summary_text'', take 20 txt)]]),
      strftime_hms = (\<lambda>t. ''12:00:00''), strftime_hm = (\<lambda>t. ''12:00''),
      py_str = demo_str, upper = (\<lambda>s. s), handler_calls = C\<rparr>"

definition offline :: env where
  "offline = demo_env (\<lambda>t u. Inl RequestException) (\<lambda>t u. Inl RequestException) (\<lambda>t. [])"

definition one_page :: "node list \<Rightarrow> env" where
  "one_page soup = demo_env (\<lambda>t u. Inl RequestException) (\<lambda>t u. Inr soup) (\<lambda>t. [])"

definition api_only :: "json \<Rightarrow> env" where
  "api_only data = demo_env (\<lambda>t u. Inr data) (\<lambda>t u. Inl RequestException) (\<lambda>t. [])"

definition failing_model :: "node list \<Rightarrow> env" where
  "failing_model soup = (one_page soup)\<lparr>summarizer := (\<lambda>t txt. Inl TypeError)\<rparr>"

definition demo_intl :: intel where
  "demo_intl = \<lparr>title = JStr ''Talks resume'', link = ''https://example.org/a'',
     source = ''BBC'', sector = ''International'', summary = ''s'',
     type = ''international'', time = ''10:00''\<rparr>"

text \<open>The state after the module is loaded, with an empty registry: the global name is bound
  to the empty list at address 0. In \<open>cached xs\<close> that list holds \<open>xs\<close>.\<close>

definition world0 :: world where
  "world0 = \<lparr>TARGET_GRID = [], SYSTEM_LOGS = [], lists = (\<lambda>a. []), fresh = 1, INTEL_CACHE = 0,
     is_model_ready = False, trigger_sync_now = False, clock = 0, fetched = [],
     model_inputs = []\<rparr>"

definition cached :: "intel list \<Rightarrow> world" where
  "cached xs = world0\<lparr>lists := (\<lambda>a. [])(0 := xs)\<rparr>"

definition ready :: world where
  "ready = world0\<lparr>is_model_ready := True\<rparr>"

definition anchor :: "string \<Rightarrow> string \<Rightarrow> node" where
  "anchor href txt = Element ''a'' [(''href'', href)] [Text NavigableString txt]"

definition para :: "string \<Rightarrow> node" where
  "para txt = Element ''p'' [] [Text NavigableString txt]"

definition text35 :: string where
  "text35 = ''Central bank keeps rate on hold now''"

definition text36_4 :: string where
  "text36_4 = ''Ministers discuss regional trade law''"

definition text36_3 :: string where
  "text36_3 = ''Government confirms emergency budget''"

definition four_words :: string where
  "four_words = ''Government announces comprehensive restructuring''"

definition five_words :: string where
  "five_words = ''Government announces a comprehensive restructuring''"

definition page_four_words :: "node list" where
  "page_four_words = [Element ''div'' [] [anchor ''/news/1'' four_words]]"

definition demo_title :: "char \<Rightarrow> string" where
  "demo_title c = ''Officials confirm new details in case '' @ [c]"

definition page_eight :: "node list" where
  "page_eight =
     [Element ''nav'' [] [anchor ''/n/menu'' (demo_title CHR ''m'')],
      Element ''div'' []
        [anchor ''/n/a'' (demo_title CHR ''a''), anchor ''/n/b'' (demo_title CHR ''b''),
         anchor ''/n/a'' (demo_title CHR ''z''), anchor ''/about'' ''About us'',
         anchor ''/n/c'' (demo_title CHR ''c''), anchor ''/n/d'' (demo_title CHR ''d''),
         anchor ''/n/e'' (demo_title CHR ''e''), anchor ''/n/f'' (demo_title CHR ''f''),
         anchor ''/n/g'' (demo_title CHR ''g'')]]"

text \<open>An item of the collection endpoint with a headline and a slug, and its candidate.\<close>

definition story_item :: "string \<times> string \<Rightarrow> json" where
  "story_item hs =
     JObj [(''story'', JObj [(''headline'', JStr (fst hs)), (''slug'', JStr (snd hs))])]"

definition story_candidate :: "env \<Rightarrow> string \<times> string \<Rightarrow> candidate" where
  "story_candidate E hs =
     \<lparr>title = JStr (fst hs), link = ''https://www.prothomalo.com/'' @ py_str E (JStr (snd hs))\<rparr>"

definition stories3 :: "(string \<times> string) list" where
  "stories3 = [(''Story A'', ''politics/a''), (''Story B'', ''politics/b''),
               (''Story A again'', ''politics/a'')]"

definition stories7 :: "(string \<times> string) list" where
  "stories7 = [(''Story A'', ''politics/a''), (''Story A again'', ''politics/a''),
               (''Story C'', ''politics/c''), (''Story D'', ''politics/d''),
               (''Story E'', ''politics/e''), (''Story F'', ''politics/f''),
               (''Story G'', ''politics/g'')]"

definition links7 :: "string list" where
  "links7 = [''https://www.prothomalo.com/politics/a'', ''https://www.prothomalo.com/politics/a'',
             ''https://www.prothomalo.com/politics/c'', ''https://www.prothomalo.com/politics/d'',
             ''https://www.prothomalo.com/politics/e'', ''https://www.prothomalo.com/politics/f'',
             ''https://www.prothomalo.com/politics/g'']"

definition soup199 :: "node list" where
  "soup199 = [Element ''div'' [] [para (replicate 99 CHR ''x''), para (replicate 99 CHR ''y'')]]"

definition soup200 :: "node list" where
  "soup200 = [Element ''div'' [] [para (replicate 100 CHR ''x''), para (replicate 99 CHR ''y'')]]"

definition soup3000 :: "node list" where
  "soup3000 = [para (replicate 3000 CHR ''x'')]"

definition bad_grid :: "(string \<times> outlet) list" where
  "bad_grid = [(''Bad'', \<lparr>otype = ''international'',
                          paths = [(''International'', ''http://[prothomalo.com/politics'')]\<rparr>)]"

definition bbc_grid :: "(string \<times> outlet) list" where
  "bbc_grid = [(''BBC'', \<lparr>otype = ''international'',
                          paths = [(''International'', ''https://news.example.org/world'')]\<rparr>)]"

definition page_two :: "node list" where
  "page_two = [anchor ''/n/a'' five_words, anchor ''/n/b'' five_words]"

text \<open>A world in which the registry is edited while the first section is being fetched:
  at instant 1 the handlers delete \<open>BBC\<close> and add \<open>CNN\<close>.\<close>

definition editing :: env where
  "editing = demo_env (\<lambda>t u. Inl RequestException) (\<lambda>t u. Inr page_two)
     (\<lambda>t. if t = 1 then [DeletePaper ''BBC'',
                          AddPaper ''CNN'' ''international'' [] [] [] ''https://cnn.example.org/'']
          else [])"

text \<open>A link whose text continues inside a \<open>template\<close> tag, a paragraph with a script in
  it, and a page of nine paragraphs.\<close>

definition template_anchor :: node where
  "template_anchor =
     Element ''a'' [(''href'', ''/news/2'')]
       [Text NavigableString ''Budget vote postponed again'',
        Element ''template'' [] [Text TemplateString '' after a long debate in parliament'']]"

definition soup_script :: "node list" where
  "soup_script =
     [Element ''p'' []
        [Text NavigableString (replicate 150 CHR ''x''),
         Element ''script'' [] [Text Script (replicate 100 CHR ''s'')]]]"

definition soup_nine :: "node list" where
  "soup_nine = map para (replicate 9 (replicate 24 CHR ''x''))"


lemmas fixture_defs = one_page_def api_only_def offline_def demo_env_def demo_urlparse_def
  page_eight_def anchor_def demo_title_def stories3_def stories7_def links7_def world0_def
  cached_def story_item_def story_candidate_def

lemmas scraper_defs = universal_intercept_def scrape_mode_def heuristic_mode_def
  requests_get_html_def requests_get_json_def api_mode_def collection_url_def collection_slug_def
  noise_tags_def is_link_def scan_anchor_def absolute_href_def interesting_string_types_def py_strip_def
  py_strip_chars_def strip_where_def py_isspace_def headline_heuristic_def tick_def add_log_def

section \<open>Properties\<close>

subsection \<open>The query endpoint\<close>

text \<open>
  C10. For every cached item and every pair of filter selections, \<open>fetch_news\<close> returns that
  item if and only if its source is among the selected sources and its sector is among the
  selected sectors or its type is \<open>international\<close>. So an international item of a selected
  source is returned whatever sectors are selected, and no item of an unselected source is
  ever returned.
\<close>

theorem fetch_news_iff:
  "(n \<in> set (fst (fetch_news w srcs secs)) \<longleftrightarrow>
      n \<in> set (current_snapshot w) \<and> source n \<in> set srcs
      \<and> (sector n \<in> set secs \<or> type n = ''international''))
   \<and> (n \<in> set (current_snapshot w) \<and> source n \<in> set srcs \<and> type n = ''international''
        \<longrightarrow> n \<in> set (fst (fetch_news w srcs secs)))
   \<and> (source n \<notin> set srcs \<longrightarrow> n \<notin> set (fst (fetch_news w srcs secs)))"
  by (auto simp: fetch_news_def)

text \<open>An international item of a selected source with no sector selected, and the same item
  with its source unselected.\<close>

theorem fetch_news_iff_witness:
  "demo_intl \<in> set (current_snapshot (cached [demo_intl]))
   \<and> source demo_intl \<in> set [''BBC'']
   \<and> type demo_intl = ''international''
   \<and> demo_intl \<in> set (fst (fetch_news (cached [demo_intl]) [''BBC''] []))
   \<and> source demo_intl \<notin> set [''CNN'']
   \<and> demo_intl \<notin> set (fst (fetch_news (cached [demo_intl]) [''CNN'']
                                [''International'']))"
  using fetch_news_iff [of demo_intl "cached [demo_intl]" "[''BBC'']" "[]"]
        fetch_news_iff [of demo_intl "cached [demo_intl]" "[''CNN'']"
                           "[''International'']"]
  by (simp add: demo_intl_def current_snapshot_def cached_def world0_def)

subsection \<open>The loop over the links\<close>













lemma strip_fixture:
  "py_strip text35 = text35" "py_strip text36_4 = text36_4" "py_strip text36_3 = text36_3"
  "py_strip four_words = four_words" "py_strip five_words = five_words"
  by (simp_all add: py_strip_def strip_where_def py_isspace_def text35_def text36_4_def
      text36_3_def four_words_def five_words_def)

lemma anchor_fixture:
  "attr (anchor h t) ''href'' = Inr h" "get_text (anchor h t) = t"
  by (simp_all add: anchor_def interesting_string_types_def)

lemma absolute_fixture:
  "absolute_href offline ''https://news.example.org/world'' ''https://news.example.org/a''
     = Inr ''https://news.example.org/a''"
  "absolute_href offline ''https://news.example.org/world'' ''/news/1''
     = Inr ''https://news.example.org/news/1''"
  by (simp_all add: absolute_href_def offline_def demo_env_def demo_urlparse_def)

subsection \<open>The headline rule\<close>

text \<open>
  C4. In the generic discovery path, an anchor whose visible (stripped) text has length
  exactly 35 is rejected, so the length threshold is strict; an anchor with text of length 36
  containing 4 spaces is accepted: its candidate is appended, its link not being in the list
  yet; an anchor with text of length 36 containing 3 spaces is rejected.
\<close>

theorem headline_boundary:
  assumes "attr a ''href'' = Inr href" and "absolute_href E url href = Inr l"
    and "l \<notin> set (map link news)"
  shows "(length (py_strip (get_text a)) = 35 \<longrightarrow> scan_anchor E url news a = Inr news)
    \<and> (length (py_strip (get_text a)) = 36 \<and> count_list (py_strip (get_text a)) CHR '' '' = 4
         \<longrightarrow> scan_anchor E url news a
               = Inr (news @ [\<lparr>title = JStr (py_strip (get_text a)), link = l\<rparr>]))
    \<and> (length (py_strip (get_text a)) = 36 \<and> count_list (py_strip (get_text a)) CHR '' '' = 3
         \<longrightarrow> scan_anchor E url news a = Inr news)"
  using assms by (simp add: scan_anchor_def headline_heuristic_def)

text \<open>Three anchors: 35 characters with 6 spaces, 36 with 4 spaces, 36 with 3 spaces.\<close>

theorem headline_boundary_witness:
  "length text35 = 35 \<and> length text36_4 = 36 \<and> count_list text36_4 CHR '' '' = 4
   \<and> length text36_3 = 36 \<and> count_list text36_3 CHR '' '' = 3
   \<and> scan_anchor offline ''https://news.example.org/world'' []
        (anchor ''https://news.example.org/a'' text35) = Inr []
   \<and> scan_anchor offline ''https://news.example.org/world'' []
        (anchor ''https://news.example.org/a'' text36_4)
       = Inr [\<lparr>title = JStr text36_4, link = ''https://news.example.org/a''\<rparr>]
   \<and> scan_anchor offline ''https://news.example.org/world'' []
        (anchor ''https://news.example.org/a'' text36_3) = Inr []"
proof -
  have n: "''https://news.example.org/a'' \<notin> set (map link ([] :: candidate list))" by simp
  have l35: "length text35 = 35" by (simp add: text35_def)
  have l364: "length text36_4 = 36 \<and> count_list text36_4 CHR '' '' = 4"
    by (simp add: text36_4_def)
  have l363: "length text36_3 = 36 \<and> count_list text36_3 CHR '' '' = 3"
    by (simp add: text36_3_def)
  show ?thesis
    using headline_boundary [OF anchor_fixture(1) [of "''https://news.example.org/a''" text35]
            absolute_fixture(1) n]
          headline_boundary [OF anchor_fixture(1) [of "''https://news.example.org/a''" text36_4]
            absolute_fixture(1) n]
          headline_boundary [OF anchor_fixture(1) [of "''https://news.example.org/a''" text36_3]
            absolute_fixture(1) n]
          l35 l364 l363
    by (simp add: anchor_fixture(2) strip_fixture)
qed

text \<open>
  A page whose only link reads \<open>Government announces comprehensive restructuring\<close>: 48
  characters and four space-separated words, but three spaces. Discovery returns nothing.
\<close>

theorem four_words_rejected:
  "find_all is_link (decompose noise_tags page_four_words) = [anchor ''/news/1'' four_words]
   \<and> py_strip (get_text (anchor ''/news/1'' four_words)) = four_words
   \<and> length four_words > 35
   \<and> length (spec_space_separated_words four_words) \<ge> 4
   \<and> fst (universal_intercept (one_page page_four_words) ''https://news.example.org/world''
            ''Demo'' world0) = Inr []"
  by (simp add: universal_intercept_def scrape_mode_def heuristic_mode_def requests_get_html_def
      one_page_def demo_env_def page_four_words_def anchor_def noise_tags_def is_link_def
      scan_anchor_def interesting_string_types_def py_strip_def strip_where_def py_isspace_def four_words_def
      headline_heuristic_def spec_space_separated_words_def)

text \<open>
  C3, amended. In the generic discovery path, for every anchor that the loop reaches (one that
  carries an \<open>href\<close>, outside the removed noise tags, before the list holds six candidates)
  and whose link resolves, the stripped text of the anchor (what \<open>get_text\<close> gives, so without
  comments and without what stands inside a script, a style sheet, a template or a ruby
  annotation) is accepted as a headline candidate if and only if its length exceeds 35
  characters and it contains at least 4 space characters; an accepted candidate is appended
  unless its resolved link is in the list already, and a rejected anchor leaves the list as
  it is.
\<close>

theorem headline_rule:
  assumes "attr a ''href'' = Inr href" and "absolute_href E url href = Inr l"
  shows "scan_anchor E url news a =
           Inr (if length (py_strip (get_text a)) > 35
                   \<and> count_list (py_strip (get_text a)) CHR '' '' \<ge> 4
                   \<and> l \<notin> set (map link news)
                then news @ [\<lparr>title = JStr (py_strip (get_text a)), link = l\<rparr>]
                else news)"
  using assms by (auto simp: scan_anchor_def headline_heuristic_def Let_def)

text \<open>The same sentence with and without the article: five words are accepted, four are not.
  And a link of 27 characters of its own whose \<open>template\<close> child holds 34 more: it is
  rejected, the text inside the template not being part of the anchor's text.\<close>

theorem headline_rule_witness:
  "scan_anchor offline ''https://news.example.org/world'' [] (anchor ''/news/1'' five_words)
     = Inr [\<lparr>title = JStr five_words, link = ''https://news.example.org/news/1''\<rparr>]
   \<and> scan_anchor offline ''https://news.example.org/world'' [] (anchor ''/news/1'' four_words)
       = Inr []
   \<and> get_text template_anchor = ''Budget vote postponed again''
   \<and> scan_anchor offline ''https://news.example.org/world'' [] template_anchor = Inr []"
proof -
  have c: "length five_words > 35 \<and> count_list five_words CHR '' '' \<ge> 4"
          "\<not> count_list four_words CHR '' '' \<ge> 4"
    by (simp_all add: five_words_def four_words_def)
  have t: "attr template_anchor ''href'' = Inr ''/news/2''"
          "get_text template_anchor = ''Budget vote postponed again''"
          "py_strip ''Budget vote postponed again'' = ''Budget vote postponed again''"
    by (simp_all add: template_anchor_def interesting_string_types_def py_strip_def
        strip_where_def py_isspace_def)
  have a: "absolute_href offline ''https://news.example.org/world'' ''/news/2''
             = Inr ''https://news.example.org/news/2''"
    by (simp add: absolute_href_def offline_def demo_env_def demo_urlparse_def)
  show ?thesis
    using headline_rule [OF anchor_fixture(1) [of "''/news/1''" five_words] absolute_fixture(2),
            where news = "[]"]
          headline_rule [OF anchor_fixture(1) [of "''/news/1''" four_words] absolute_fixture(2),
            where news = "[]"]
          headline_rule [OF t(1) a, where news = "[]"] c
    by (simp add: anchor_fixture(2) strip_fixture t(2,3))
qed

subsection \<open>Cap and deduplication\<close>








subsection \<open>What the steps of the worker leave alone\<close>

lemma kept_refl [simp]: "kept a w w"
  by (simp add: kept_def)

lemma kept_trans: "kept a w w' \<Longrightarrow> kept a w' w'' \<Longrightarrow> kept a w w''"
  by (simp add: kept_def)

lemma tick_kept [simp]: "kept a w (tick E w)"
  by (simp add: kept_def tick_def)

lemma add_log_kept [simp]: "kept a w (add_log E msg w)"
  by (simp add: kept_def add_log_def tick_def Let_def)

lemma add_log_lists [simp]: "lists (add_log E msg w) = lists w"
  by (simp add: add_log_def tick_def Let_def)

lemma add_log_cache [simp]: "INTEL_CACHE (add_log E msg w) = INTEL_CACHE w"
  by (simp add: add_log_def tick_def Let_def)

lemma add_log_fresh [simp]: "fresh (add_log E msg w) = fresh w"
  by (simp add: add_log_def tick_def Let_def)

lemma add_log_trigger [simp]: "trigger_sync_now (add_log E msg w) = trigger_sync_now w"
  by (simp add: add_log_def tick_def Let_def)

lemma api_mode_world:
  "snd (api_mode E slug w) = tick E (w\<lparr>fetched := fetched w @ [collection_url slug]\<rparr>)"
  by (simp add: api_mode_def requests_get_json_def split: sum.splits)

lemma heuristic_mode_world:
  "snd (heuristic_mode E url news w) = tick E (w\<lparr>fetched := fetched w @ [url]\<rparr>)"
  by (simp add: heuristic_mode_def requests_get_html_def split: sum.splits)

lemma scrape_mode_kept: "kept a w (snd (scrape_mode E url name news w))"
proof -
  obtain n x w' where h: "heuristic_mode E url news w = ((n, x), w')"
    by (metis surj_pair)
  have "w' = tick E (w\<lparr>fetched := fetched w @ [url]\<rparr>)"
    using heuristic_mode_world [of E url news w] h by simp
  then have k: "kept a w w'" by (simp add: kept_def tick_def)
  show ?thesis
  proof (cases x)
    case None
    then show ?thesis using h k by (simp add: scrape_mode_def)
  next
    case (Some e)
    then show ?thesis using h kept_trans [OF k add_log_kept] by (simp add: scrape_mode_def)
  qed
qed

lemma universal_intercept_kept: "kept a w (snd (universal_intercept E url name w))"
proof (cases "url \<noteq> [] \<and> py_in ''prothomalo'' url")
  case False
  then show ?thesis using scrape_mode_kept [of a w E url name "[]"]
    by (auto simp: universal_intercept_def)
next
  case True
  show ?thesis
  proof (cases "urlparse E url")
    case (Inl e)
    then show ?thesis using True by (simp add: universal_intercept_def)
  next
    case (Inr p)
    obtain n x w' where m: "api_mode E (collection_slug url p) w = ((n, x), w')"
      by (metis surj_pair)
    have "w' = tick E (w\<lparr>fetched := fetched w @ [collection_url (collection_slug url p)]\<rparr>)"
      using api_mode_world [of E "collection_slug url p" w] m by simp
    then have k: "kept a w w'" by (simp add: kept_def tick_def)
    have s: "kept a w (snd (scrape_mode E url name news w'))" for news
      using kept_trans [OF k scrape_mode_kept] .
    show ?thesis using True Inr m k s by (cases x) (simp_all add: universal_intercept_def)
  qed
qed

lemma get_deep_summary_kept: "kept a w (snd (get_deep_summary E url w))"
  by (simp add: kept_def get_deep_summary_def deep_summary_body_def requests_get_html_def
      run_summarizer_def tick_def Let_def
      split: prod.splits sum.splits option.splits list.splits)

lemma list_append_kept: "a \<noteq> tc \<Longrightarrow> kept a w (list_append tc x w)"
  by (simp add: kept_def list_append_def)

lemma synthesize_kept:
  "a \<noteq> tc \<Longrightarrow> kept a w (snd (synthesize E name sec ty tc items w))"
proof (induction items arbitrary: w)
  case Nil
  then show ?case by simp
next
  case (Cons item items)
  show ?case
  proof (cases "py_slice_to 40 (title item)")
    case (Inl e)
    then show ?thesis by simp
  next
    case (Inr t)
    let ?w = "add_log E (''SYNTHESIZING: '' @ py_str E t @ ''...'') w"
    obtain r w' where g: "get_deep_summary E (link item) ?w = (r, w')"
      by (metis surj_pair)
    have "kept a ?w w'" using get_deep_summary_kept [of a ?w E "link item"] g by simp
    then have k: "kept a w w'" using kept_trans [OF add_log_kept] by blast
    show ?thesis
    proof (cases r)
      case (Inl e)
      then show ?thesis using Inr g k by simp
    next
      case s: (Inr s)
      let ?w2 = "list_append tc \<lparr>title = title item, link = link item, source = name,
                   sector = sec, summary = s, type = ty, time = strftime_hm E (clock w')\<rparr> w'"
      have "kept a w' ?w2" using Cons.prems by (rule list_append_kept)
      then have "kept a w ?w2" using k kept_trans by blast
      then have "kept a w (snd (synthesize E name sec ty tc items ?w2))"
        using Cons.IH [OF Cons.prems, of ?w2] kept_trans by blast
      then show ?thesis using Inr g s by simp
    qed
  qed
qed

lemma sectors_loop_kept:
  "a \<noteq> tc \<Longrightarrow> kept a w (snd (sectors_loop E name ty tc secs w))"
proof (induction secs arbitrary: w)
  case Nil
  then show ?case by simp
next
  case (Cons su rest)
  let ?w = "add_log E (''INTERCEPTING: '' @ upper E name @ '' -> '' @ upper E (fst su)) w"
  obtain r w1 where u: "universal_intercept E (snd su) name ?w = (r, w1)"
    by (metis surj_pair)
  have "kept a ?w w1" using universal_intercept_kept [of a ?w E "snd su" name] u by simp
  then have k: "kept a w w1" using kept_trans [OF add_log_kept] by blast
  show ?case
  proof (cases r)
    case (Inl e)
    then show ?thesis using u k by simp
  next
    case (Inr headlines)
    obtain r2 w2 where y: "synthesize E name (fst su) ty tc (take 3 headlines) w1 = (r2, w2)"
      by (metis surj_pair)
    have "kept a w1 w2"
      using synthesize_kept [OF Cons.prems, of w1 E name "fst su" ty "take 3 headlines"] y
      by simp
    then have k2: "kept a w w2" using k kept_trans by blast
    show ?thesis
    proof (cases r2)
      case (Some e)
      then show ?thesis using Inr u y k2 by simp
    next
      case None
      have "kept a w (snd (sectors_loop E name ty tc rest w2))"
        using Cons.IH [OF Cons.prems, of w2] k2 kept_trans by blast
      then show ?thesis using Inr u y None by simp
    qed
  qed
qed

lemma outlets_loop_kept:
  "a \<noteq> tc \<Longrightarrow> kept a w (snd (outlets_loop E tc targets w))"
proof (induction targets arbitrary: w)
  case Nil
  then show ?case by simp
next
  case (Cons nc rest)
  obtain r w1 where s: "sectors_loop E (fst nc) (otype (snd nc)) tc (paths (snd nc)) w = (r, w1)"
    by (metis surj_pair)
  have k: "kept a w w1"
    using sectors_loop_kept [OF Cons.prems, of w E "fst nc" "otype (snd nc)" "paths (snd nc)"] s
    by simp
  show ?case
  proof (cases r)
    case (Some e)
    then show ?thesis using s k by simp
  next
    case None
    have "kept a w (snd (outlets_loop E tc rest w1))"
      using Cons.IH [OF Cons.prems, of w1] k kept_trans by blast
    then show ?thesis using s None by simp
  qed
qed

text \<open>The worlds at the two ends of a turn.\<close>

lemma cycle_entry_eq:
  "cycle_entry E w = (tc, targets, w1) \<Longrightarrow>
   tc = fresh w \<and> targets = TARGET_GRID w1
   \<and> w1 = add_log E ''SYNC_ENGINE: PROBING GLOBAL TARGET GRID...'' (snd (new_list w))"
  by (auto simp: cycle_entry_def new_list_def Let_def)

lemma cycle_entry_world:
  assumes "cycle_entry E w = (tc, targets, w1)"
  shows "lists w1 tc = []" and "fresh w1 = Suc (fresh w)" and "INTEL_CACHE w1 = INTEL_CACHE w"
    and "trigger_sync_now w1 = trigger_sync_now w"
    and "a \<noteq> tc \<Longrightarrow> lists w1 a = lists w a"
  using cycle_entry_eq [OF assms] by (simp_all add: new_list_def)

lemma sync_cycle_cases:
  assumes "cycle_entry E w = (tc, targets, w1)" and "outlets_loop E tc targets w1 = (r, w2)"
  shows "sync_cycle E w =
           (case r of
              Some e \<Rightarrow> (Some e, w2)
            | None \<Rightarrow>
                (None,
                 add_log E (''SYNC_ENGINE: CACHE REFRESHED. '' @ str_nat (length (lists w2 tc))
                            @ '' PACKETS READY.'')
                   (w2\<lparr>INTEL_CACHE := tc\<rparr>)))"
  using assms
  by (simp add: sync_cycle_def cycle_body_def current_snapshot_def Let_def split: option.splits)

subsection \<open>Exceptions of the scraper\<close>

text \<open>
  C8. Discovery is meant never to raise. At the address \<open>http://[prothomalo.com/politics\<close>,
  with the network down, \<open>urlparse\<close> on main.py:68 raises \<open>ValueError\<close> before the first
  \<open>try\<close>: the exception leaves \<open>universal_intercept\<close> with no log line, it ends the cycle of
  a registry that holds the address, and the cache keeps its old content.
\<close>

theorem intercept_raises_on_bracket_url:
  "universal_intercept offline ''http://[prothomalo.com/politics'' ''Bad'' world0
     = (Inl ValueError, world0)
   \<and> fst (sync_cycle offline (world0\<lparr>TARGET_GRID := bad_grid\<rparr>)) = Some ValueError
   \<and> current_snapshot (snd (sync_cycle offline ((cached [demo_intl])\<lparr>TARGET_GRID := bad_grid\<rparr>)))
       = [demo_intl]"
  by (simp add: fixture_defs scraper_defs bad_grid_def sync_cycle_def cycle_body_def
      cycle_entry_def new_list_def current_snapshot_def)

subsection \<open>The summary\<close>

lemma article_texts:
  "article_text soup199 = replicate 99 CHR ''x'' @ '' '' @ replicate 99 CHR ''y''"
  "article_text soup200 = replicate 100 CHR ''x'' @ '' '' @ replicate 99 CHR ''y''"
  "article_text soup3000 = replicate 3000 CHR ''x''"
  "article_text soup_script = replicate 150 CHR ''x''"
  by (simp_all add: article_text_def soup199_def soup200_def soup3000_def soup_script_def
      para_def interesting_string_types_def)

lemma find_all_paras:
  "find_all (\<lambda>t attrs. t = ''p'') (replicate n (para s)) = replicate n (para s)"
  by (induction n) (simp_all add: para_def)

lemma py_join_replicate:
  "length (py_join '' '' (replicate (Suc n) s)) = Suc n * length s + n"
  by (induction n) simp_all

lemma article_text_nine: "length (article_text soup_nine) = 199"
proof -
  have "get_text (para (replicate 24 CHR ''x'')) = replicate 24 CHR ''x''"
    by (simp add: para_def interesting_string_types_def)
  then have "article_text soup_nine = py_join '' '' (replicate 8 (replicate 24 CHR ''x''))"
    by (simp add: article_text_def soup_nine_def find_all_paras)
  then show ?thesis using py_join_replicate [of 7 "replicate 24 CHR ''x''"] by simp
qed

text \<open>
  C6. For every article link, when the model is ready and the page is fetched: if the text of
  at most the first 8 paragraph elements, joined by single spaces, is shorter than 200
  characters, \<open>get_deep_summary\<close> returns the fixed insufficient-data sentinel and the model
  is not invoked: the request is all that happened. If the text has 200 characters or more,
  the model is invoked once, at the instant after the request, on exactly the first 2500
  characters of that text, and what \<open>get_deep_summary\<close> returns is read from what the model
  answered on that input: the \<open>summary_text\<close> of the first element of its answer, or the
  interrupted sentinel when the model raises or answers without one.
\<close>

theorem summary_threshold:
  assumes "is_model_ready w" and "get_html E (clock w) url = Inr soup"
  shows "(length (article_text soup) < 200 \<longrightarrow>
            get_deep_summary E url w
              = (Inr insufficient_notice, snd (requests_get_html E url w))
            \<and> model_inputs (snd (get_deep_summary E url w)) = model_inputs w)
       \<and> (200 \<le> length (article_text soup) \<longrightarrow>
            fst (get_deep_summary E url w)
              = (case summarizer E (Suc (clock w)) (take 2500 (article_text soup)) of
                   Inl e \<Rightarrow> Inr ''Deep Link Analysis Interrupted.''
                 | Inr [] \<Rightarrow> Inr ''Deep Link Analysis Interrupted.''
                 | Inr (d # ds) \<Rightarrow>
                     (case map_of d ''summary_text'' of
                        None \<Rightarrow> Inr ''Deep Link Analysis Interrupted.''
                      | Some s \<Rightarrow> Inr s))
            \<and> model_inputs (snd (get_deep_summary E url w))
                = model_inputs w @ [take 2500 (article_text soup)])"
proof (intro conjI impI)
  assume "length (article_text soup) < 200"
  then show "get_deep_summary E url w
               = (Inr insufficient_notice, snd (requests_get_html E url w))"
    using assms
    by (simp add: get_deep_summary_def deep_summary_body_def requests_get_html_def Let_def)
next
  assume "length (article_text soup) < 200"
  then show "model_inputs (snd (get_deep_summary E url w)) = model_inputs w"
    using assms
    by (simp add: get_deep_summary_def deep_summary_body_def requests_get_html_def tick_def
        Let_def)
next
  assume "200 \<le> length (article_text soup)"
  then show "fst (get_deep_summary E url w)
              = (case summarizer E (Suc (clock w)) (take 2500 (article_text soup)) of
                   Inl e \<Rightarrow> Inr ''Deep Link Analysis Interrupted.''
                 | Inr [] \<Rightarrow> Inr ''Deep Link Analysis Interrupted.''
                 | Inr (d # ds) \<Rightarrow>
                     (case map_of d ''summary_text'' of
                        None \<Rightarrow> Inr ''Deep Link Analysis Interrupted.''
                      | Some s \<Rightarrow> Inr s))"
    using assms
    by (simp add: get_deep_summary_def deep_summary_body_def requests_get_html_def
        run_summarizer_def tick_def Let_def split: sum.splits list.splits option.splits)
next
  assume "200 \<le> length (article_text soup)"
  then show "model_inputs (snd (get_deep_summary E url w))
               = model_inputs w @ [take 2500 (article_text soup)]"
    using assms
    by (simp add: get_deep_summary_def deep_summary_body_def requests_get_html_def
        run_summarizer_def tick_def Let_def split: sum.splits list.splits option.splits)
qed

text \<open>
  Articles of 199, 200 and 3000 characters, read by a model that answers with the first 20
  characters of its input; a paragraph of 150 characters with a script of 100 in it; and
  nine paragraphs of 24 characters, of which eight are read.
\<close>

theorem summary_threshold_witness:
  "length (article_text soup199) = 199
   \<and> fst (get_deep_summary (one_page soup199) ''https://news.example.org/a'' ready)
       = Inr insufficient_notice
   \<and> model_inputs (snd (get_deep_summary (one_page soup199) ''https://news.example.org/a'' ready))
       = []
   \<and> length (article_text soup200) = 200
   \<and> fst (get_deep_summary (one_page soup200) ''https://news.example.org/a'' ready)
       = Inr (replicate 20 CHR ''x'')
   \<and> model_inputs (snd (get_deep_summary (one_page soup200) ''https://news.example.org/a'' ready))
       = [article_text soup200]
   \<and> model_inputs (snd (get_deep_summary (one_page soup3000) ''https://news.example.org/a'' ready))
       = [replicate 2500 CHR ''x'']
   \<and> length (article_text soup_script) = 150
   \<and> fst (get_deep_summary (one_page soup_script) ''https://news.example.org/a'' ready)
       = Inr insufficient_notice
   \<and> length (find_all (\<lambda>t attrs. t = ''p'') soup_nine) = 9
   \<and> fst (get_deep_summary (one_page soup_nine) ''https://news.example.org/a'' ready)
       = Inr insufficient_notice"
proof -
  have r: "is_model_ready ready" "model_inputs ready = []" by (simp_all add: ready_def world0_def)
  have h: "get_html (one_page soup) (clock ready) ''https://news.example.org/a'' = Inr soup"
    for soup
    by (simp add: one_page_def demo_env_def)
  have m: "summarizer (one_page soup) t inp = Inr [[(''summary_text'', take 20 inp)]]"
    for soup t inp
    by (simp add: one_page_def demo_env_def)
  have n: "length (find_all (\<lambda>t attrs. t = ''p'') soup_nine) = 9"
    by (simp add: soup_nine_def find_all_paras)
  show ?thesis
    using summary_threshold [OF r(1) h [of soup199]] summary_threshold [OF r(1) h [of soup200]]
          summary_threshold [OF r(1) h [of soup3000]]
          summary_threshold [OF r(1) h [of soup_script]]
          summary_threshold [OF r(1) h [of soup_nine]] r(2) n
    by (simp add: article_texts article_text_nine m requests_get_html_def tick_def)
qed

text \<open>
  C7. \<open>get_deep_summary\<close> never raises: for every link and every answer of the network and
  of the model it returns a string. If the model is not loaded it returns the fixed
  initializing sentinel at once and leaves the world as it was, so no request is made; if the
  model is loaded and the fetch, the extraction or the inference raises, the exception is
  caught and the result is the fixed interrupted sentinel.
\<close>

theorem summary_never_raises:
  "(\<exists>s. fst (get_deep_summary E url w) = Inr s)
   \<and> (\<not> is_model_ready w \<longrightarrow>
        get_deep_summary E url w = (Inr ''AI CORE INITIALIZING. PREVIEW UNAVAILABLE.'', w))
   \<and> (is_model_ready w \<and> fst (deep_summary_body E url w) = Inl e \<longrightarrow>
        fst (get_deep_summary E url w) = Inr ''Deep Link Analysis Interrupted.'')"
  by (auto simp: get_deep_summary_def split: prod.splits sum.splits)

text \<open>The model not loaded; the network down; the model raising on a fetched article.\<close>

theorem summary_never_raises_witness:
  "get_deep_summary offline ''https://news.example.org/a'' world0
     = (Inr ''AI CORE INITIALIZING. PREVIEW UNAVAILABLE.'', world0)
   \<and> fetched (snd (get_deep_summary offline ''https://news.example.org/a'' world0)) = []
   \<and> fst (deep_summary_body offline ''https://news.example.org/a'' ready) = Inl RequestException
   \<and> fst (get_deep_summary offline ''https://news.example.org/a'' ready)
       = Inr ''Deep Link Analysis Interrupted.''
   \<and> fst (deep_summary_body (failing_model soup200) ''https://news.example.org/a'' ready)
       = Inl TypeError
   \<and> fst (get_deep_summary (failing_model soup200) ''https://news.example.org/a'' ready)
       = Inr ''Deep Link Analysis Interrupted.''"
proof -
  have n: "\<not> is_model_ready world0" "fetched world0 = []" by (simp_all add: world0_def)
  have r: "is_model_ready ready" by (simp add: ready_def world0_def)
  have b1: "fst (deep_summary_body offline ''https://news.example.org/a'' ready)
              = Inl RequestException"
    by (simp add: deep_summary_body_def requests_get_html_def offline_def demo_env_def)
  have b2: "fst (deep_summary_body (failing_model soup200) ''https://news.example.org/a'' ready)
              = Inl TypeError"
    by (simp add: deep_summary_body_def requests_get_html_def run_summarizer_def
        failing_model_def one_page_def demo_env_def article_texts)
  show ?thesis
    using summary_never_raises [of offline "''https://news.example.org/a''" world0]
          summary_never_raises [of offline "''https://news.example.org/a''" ready
                                   RequestException]
          summary_never_raises [of "failing_model soup200" "''https://news.example.org/a''"
                                   ready TypeError]
          n r b1 b2
    by simp
qed

subsection \<open>The manual trigger\<close>

lemma trigger_run_append:
  "trigger_run E (xs @ ys) s = trigger_run E ys (trigger_run E xs s)"
  by (induction xs arbitrary: s) auto

lemma force_sync_sets: "trigger_sync_now (force_sync E w)"
  by (simp add: force_sync_def)

lemma force_many:
  "fst (trigger_run E (replicate n ForceSync) (k, w)) = k
   \<and> trigger_sync_now (snd (trigger_run E (replicate n ForceSync) (k, w)))
       = (0 < n \<or> trigger_sync_now w)"
proof (induction n arbitrary: w)
  case 0
  then show ?case by simp
next
  case (Suc n)
  show ?case using Suc.IH [of "force_sync E w"] by (simp add: force_sync_sets)
qed

text \<open>After any schedule the flag is set if and only if a call came after the last
  \<open>clear()\<close>, or the flag was set at the start and nothing cleared it.\<close>

lemma flag_after:
  "trigger_sync_now (snd (trigger_run E xs (k, w)))
     = (ForceSync \<in> set (takeWhile (\<lambda>st. st \<noteq> Clears) (rev xs))
        \<or> (Clears \<notin> set xs \<and> trigger_sync_now w))"
proof (induction xs rule: rev_induct)
  case Nil
  then show ?case by simp
next
  case (snoc st xs)
  obtain k' w' where r: "trigger_run E xs (k, w) = (k', w')"
    by (metis surj_pair)
  then have f: "trigger_sync_now w'
                  = (ForceSync \<in> set (takeWhile (\<lambda>st. st \<noteq> Clears) (rev xs))
                     \<or> (Clears \<notin> set xs \<and> trigger_sync_now w))"
    using snoc.IH by simp
  show ?case
  proof (cases st)
    case ForceSync
    then show ?thesis using r by (simp add: trigger_run_append force_sync_sets)
  next
    case WaitReturns
    then show ?thesis using r f by (simp add: trigger_run_append)
  next
    case Clears
    then show ?thesis using r by (simp add: trigger_run_append)
  qed
qed

text \<open>Nothing in a cycle touches the trigger: a trigger set while a cycle runs is still set
  when the worker reaches its wait.\<close>

lemma sync_cycle_trigger:
  "trigger_sync_now (snd (sync_cycle E w)) = trigger_sync_now w"
proof -
  obtain tc targets w1 where ce: "cycle_entry E w = (tc, targets, w1)"
    by (metis prod_cases3)
  obtain r w2 where ol: "outlets_loop E tc targets w1 = (r, w2)"
    by (metis surj_pair)
  have "kept (Suc tc) w1 w2" using outlets_loop_kept [of "Suc tc" tc w1 E targets] ol by simp
  then have "trigger_sync_now w2 = trigger_sync_now w"
    using cycle_entry_world(4) [OF ce] by (simp add: kept_def)
  then show ?thesis using sync_cycle_cases [OF ce ol] by (cases r) simp_all
qed

text \<open>
  A wake by timeout, three calls before the worker reaches \<open>clear()\<close>, and two more wake
  events: \<open>clear()\<close> erases the three calls, and no wait is ended by the trigger. Three
  calls between two wake events have caused no triggered cycle.
\<close>

theorem force_sync_lost:
  "fst (trigger_run offline
          [WaitReturns, ForceSync, ForceSync, ForceSync, Clears, WaitReturns, Clears,
           WaitReturns, Clears]
          (0, world0)) = 0
   \<and> \<not> trigger_sync_now
         (snd (trigger_run offline [WaitReturns, ForceSync, ForceSync, ForceSync, Clears]
                 (0, world0)))"
  by (simp add: force_sync_def world0_def)

text \<open>
  C9, amended. A wait is ended by the trigger if and only if a call of \<open>force_sync\<close> came
  after the last \<open>clear()\<close> (or the flag was set at the start and never cleared). So of the
  calls between two wake events, the \<open>a\<close> calls that come before the worker's \<open>clear()\<close>
  (main.py:155) are erased by it, and the \<open>b\<close> calls that come after it, while the cycle
  runs or the worker waits, end the next wait together: they cause exactly one triggered
  cycle if \<open>b \<ge> 1\<close>, whatever \<open>b\<close> is, and none if \<open>b = 0\<close>; the wait after that is not
  ended by the trigger, the flag having been cleared on waking. A cycle does not touch the
  flag.
\<close>

theorem force_sync_collapses:
  "trigger_sync_now (snd (trigger_run E xs (k, w)))
     = (ForceSync \<in> set (takeWhile (\<lambda>st. st \<noteq> Clears) (rev xs))
        \<or> (Clears \<notin> set xs \<and> trigger_sync_now w))
   \<and> fst (trigger_run E
            (replicate a ForceSync @ [Clears] @ replicate b ForceSync
             @ [WaitReturns, Clears, WaitReturns, Clears]) (k, w))
       = (if 0 < b then Suc k else k)
   \<and> trigger_sync_now (snd (sync_cycle E w)) = trigger_sync_now w"
proof (intro conjI)
  show "trigger_sync_now (snd (trigger_run E xs (k, w)))
          = (ForceSync \<in> set (takeWhile (\<lambda>st. st \<noteq> Clears) (rev xs))
             \<or> (Clears \<notin> set xs \<and> trigger_sync_now w))"
    by (rule flag_after)
next
  obtain k1 w1 where r1: "trigger_run E (replicate a ForceSync) (k, w) = (k1, w1)"
    by (metis surj_pair)
  have k1: "k1 = k" using force_many [of E a k w] r1 by simp
  let ?w1 = "w1\<lparr>trigger_sync_now := False\<rparr>"
  obtain k2 w2 where r2: "trigger_run E (replicate b ForceSync) (k, ?w1) = (k2, w2)"
    by (metis surj_pair)
  have k2: "k2 = k \<and> trigger_sync_now w2 = (0 < b)"
    using force_many [of E b k ?w1] r2 by simp
  show "fst (trigger_run E
            (replicate a ForceSync @ [Clears] @ replicate b ForceSync
             @ [WaitReturns, Clears, WaitReturns, Clears]) (k, w))
       = (if 0 < b then Suc k else k)"
    using r1 k1 r2 k2 by (simp add: trigger_run_append)
next
  show "trigger_sync_now (snd (sync_cycle E w)) = trigger_sync_now w"
    by (rule sync_cycle_trigger)
qed

text \<open>Three calls after the \<open>clear()\<close>, one call after it, two before it and one after it,
  and three before it and none after it, each followed by two wake events.\<close>

theorem force_sync_collapses_witness:
  "fst (trigger_run offline
          [Clears, ForceSync, ForceSync, ForceSync, WaitReturns, Clears, WaitReturns, Clears]
          (0, world0)) = 1
   \<and> fst (trigger_run offline [Clears, ForceSync, WaitReturns, Clears, WaitReturns, Clears]
            (0, world0)) = 1
   \<and> fst (trigger_run offline
            [ForceSync, ForceSync, Clears, ForceSync, WaitReturns, Clears, WaitReturns, Clears]
            (0, world0)) = 1
   \<and> fst (trigger_run offline
            [ForceSync, ForceSync, ForceSync, Clears, WaitReturns, Clears, WaitReturns, Clears]
            (0, world0)) = 0
   \<and> trigger_sync_now (snd (trigger_run offline [ForceSync, Clears, ForceSync] (0, world0)))
   \<and> \<not> trigger_sync_now (snd (trigger_run offline [ForceSync, ForceSync, Clears] (0, world0)))"
  using force_sync_collapses [of offline "[ForceSync, Clears, ForceSync]" 0 world0 0 3]
        force_sync_collapses [of offline "[ForceSync, ForceSync, Clears]" 0 world0 0 1]
        force_sync_collapses [of offline "[]" 0 world0 2 1]
        force_sync_collapses [of offline "[]" 0 world0 3 0]
  by (simp add: numeral_3_eq_3 numeral_2_eq_2)

subsection \<open>Publication of the snapshot\<close>






subsection \<open>The registry copy\<close>

lemma synthesize_sources:
  "set (map source (lists (snd (synthesize E name sec ty tc items w)) tc))
     \<subseteq> set (map source (lists w tc)) \<union> {name}"
proof (induction items arbitrary: w)
  case Nil
  then show ?case by auto
next
  case (Cons item items)
  show ?case
  proof (cases "py_slice_to 40 (title item)")
    case (Inl e)
    then show ?thesis by auto
  next
    case (Inr t)
    let ?w = "add_log E (''SYNTHESIZING: '' @ py_str E t @ ''...'') w"
    obtain r w' where g: "get_deep_summary E (link item) ?w = (r, w')"
      by (metis surj_pair)
    have "kept tc ?w w'" using get_deep_summary_kept [of tc ?w E "link item"] g by simp
    then have k: "lists w' tc = lists w tc" by (simp add: kept_def)
    show ?thesis
    proof (cases r)
      case (Inl e)
      then show ?thesis using Inr g k by auto
    next
      case s: (Inr s)
      let ?x = "\<lparr>title = title item, link = link item, source = name,
                 sector = sec, summary = s, type = ty, time = strftime_hm E (clock w')\<rparr>"
      let ?w2 = "list_append tc ?x w'"
      have l: "lists ?w2 tc = lists w tc @ [?x]" using k by (simp add: list_append_def)
      have "set (map source (lists (snd (synthesize E name sec ty tc items ?w2)) tc))
              \<subseteq> set (map source (lists ?w2 tc)) \<union> {name}"
        by (rule Cons.IH)
      then have "set (map source (lists (snd (synthesize E name sec ty tc items ?w2)) tc))
              \<subseteq> set (map source (lists w tc)) \<union> {name}"
        unfolding l by auto
      then show ?thesis using Inr g s by simp
    qed
  qed
qed

lemma sectors_loop_sources:
  "set (map source (lists (snd (sectors_loop E name ty tc secs w)) tc))
     \<subseteq> set (map source (lists w tc)) \<union> {name}"
proof (induction secs arbitrary: w)
  case Nil
  then show ?case by auto
next
  case (Cons su rest)
  let ?w = "add_log E (''INTERCEPTING: '' @ upper E name @ '' -> '' @ upper E (fst su)) w"
  obtain r w1 where u: "universal_intercept E (snd su) name ?w = (r, w1)"
    by (metis surj_pair)
  have "kept tc ?w w1" using universal_intercept_kept [of tc ?w E "snd su" name] u by simp
  then have k: "lists w1 tc = lists w tc" by (simp add: kept_def)
  show ?case
  proof (cases r)
    case (Inl e)
    then show ?thesis using u k by auto
  next
    case (Inr headlines)
    obtain r2 w2 where y: "synthesize E name (fst su) ty tc (take 3 headlines) w1 = (r2, w2)"
      by (metis surj_pair)
    have a: "set (map source (lists w2 tc)) \<subseteq> set (map source (lists w tc)) \<union> {name}"
      using synthesize_sources [of E name "fst su" ty tc "take 3 headlines" w1] y k by simp
    show ?thesis
    proof (cases r2)
      case (Some e)
      then show ?thesis using Inr u y a by simp
    next
      case None
      have "set (map source (lists (snd (sectors_loop E name ty tc rest w2)) tc))
              \<subseteq> set (map source (lists w2 tc)) \<union> {name}"
        by (rule Cons.IH)
      then have "set (map source (lists (snd (sectors_loop E name ty tc rest w2)) tc))
              \<subseteq> set (map source (lists w tc)) \<union> {name}"
        using a by auto
      then show ?thesis using Inr u y None by simp
    qed
  qed
qed

lemma outlets_loop_sources:
  "set (map source (lists (snd (outlets_loop E tc targets w)) tc))
     \<subseteq> set (map source (lists w tc)) \<union> set (map fst targets)"
proof (induction targets arbitrary: w)
  case Nil
  then show ?case by auto
next
  case (Cons nc rest)
  obtain r w1 where s: "sectors_loop E (fst nc) (otype (snd nc)) tc (paths (snd nc)) w = (r, w1)"
    by (metis surj_pair)
  have a: "set (map source (lists w1 tc)) \<subseteq> set (map source (lists w tc)) \<union> {fst nc}"
    using sectors_loop_sources [of E "fst nc" "otype (snd nc)" tc "paths (snd nc)" w] s by simp
  show ?case
  proof (cases r)
    case (Some e)
    then show ?thesis using s a by auto
  next
    case None
    have "set (map source (lists (snd (outlets_loop E tc rest w1)) tc))
            \<subseteq> set (map source (lists w1 tc)) \<union> set (map fst rest)"
      by (rule Cons.IH)
    then have "set (map source (lists (snd (outlets_loop E tc rest w1)) tc))
            \<subseteq> set (map source (lists w tc)) \<union> set (map fst (nc # rest))"
      using a by auto
    then show ?thesis using s None by simp
  qed
qed

lemma add_log_new_list_grid:
  "TARGET_GRID (add_log E msg (snd (new_list w))) = TARGET_GRID (add_log E msg w)"
  by (simp add: add_log_def tick_def new_list_def Let_def)

text \<open>
  C2. For every registry state R at cycle start, that is, when the worker copies the registry
  on main.py:134 after its first log line, a completed cycle publishes a snapshot in which
  the source of every item is an outlet name of R, whatever outlets the handlers add to or
  remove from the registry while the cycle is in flight.
\<close>

theorem cycle_sources_from_copy:
  assumes "sync_cycle E w = (None, w')"
  shows "set (map source (current_snapshot w'))
           \<subseteq> set (map fst (TARGET_GRID
                   (add_log E ''SYNC_ENGINE: PROBING GLOBAL TARGET GRID...'' w)))"
proof -
  obtain tc targets w1 where ce: "cycle_entry E w = (tc, targets, w1)"
    by (metis prod_cases3)
  have t: "targets = TARGET_GRID (add_log E ''SYNC_ENGINE: PROBING GLOBAL TARGET GRID...'' w)"
    using cycle_entry_eq [OF ce] add_log_new_list_grid by simp
  obtain r w2 where ol: "outlets_loop E tc targets w1 = (r, w2)"
    by (metis surj_pair)
  have "set (map source (lists w2 tc)) \<subseteq> set (map source (lists w1 tc)) \<union> set (map fst targets)"
    using outlets_loop_sources [of E tc targets w1] ol by simp
  then have s: "set (map source (lists w2 tc)) \<subseteq> set (map fst targets)"
    using cycle_entry_world(1) [OF ce] by simp
  have "r = None \<and> current_snapshot w' = lists w2 tc"
    using sync_cycle_cases [OF ce ol] assms
    by (cases r) (auto simp: current_snapshot_def)
  then show ?thesis using s t by simp
qed

text \<open>
  A cycle over a registry that holds \<open>BBC\<close> alone, during which \<open>BBC\<close> is deleted and
  \<open>CNN\<close> is added: both published items come from \<open>BBC\<close>, and the registry holds \<open>CNN\<close>
  alone when the cycle ends.
\<close>

lemma editing_run:
  "fst (sync_cycle editing (world0\<lparr>TARGET_GRID := bbc_grid\<rparr>)) = None
   \<and> map source (current_snapshot (snd (sync_cycle editing (world0\<lparr>TARGET_GRID := bbc_grid\<rparr>))))
       = [''BBC'', ''BBC'']
   \<and> map fst (TARGET_GRID (snd (sync_cycle editing (world0\<lparr>TARGET_GRID := bbc_grid\<rparr>))))
       = [''CNN'']
   \<and> map fst (TARGET_GRID (add_log editing ''SYNC_ENGINE: PROBING GLOBAL TARGET GRID...''
                 (world0\<lparr>TARGET_GRID := bbc_grid\<rparr>))) = [''BBC'']"
  by (simp add: fixture_defs scraper_defs sync_cycle_def cycle_body_def cycle_entry_def
      new_list_def list_append_def current_snapshot_def bbc_grid_def page_two_def editing_def
      five_words_def get_deep_summary_def add_paper_def delete_paper_def dict_del_def
      Let_def)

theorem cycle_sources_from_copy_witness:
  "fst (sync_cycle editing (world0\<lparr>TARGET_GRID := bbc_grid\<rparr>)) = None
   \<and> set (map source
            (current_snapshot (snd (sync_cycle editing (world0\<lparr>TARGET_GRID := bbc_grid\<rparr>)))))
       \<subseteq> set (map fst (TARGET_GRID
               (add_log editing ''SYNC_ENGINE: PROBING GLOBAL TARGET GRID...''
                  (world0\<lparr>TARGET_GRID := bbc_grid\<rparr>))))
   \<and> map source (current_snapshot (snd (sync_cycle editing (world0\<lparr>TARGET_GRID := bbc_grid\<rparr>))))
       = [''BBC'', ''BBC'']
   \<and> map fst (TARGET_GRID (snd (sync_cycle editing (world0\<lparr>TARGET_GRID := bbc_grid\<rparr>))))
       = [''CNN'']"
proof -
  have "sync_cycle editing (world0\<lparr>TARGET_GRID := bbc_grid\<rparr>)
          = (None, snd (sync_cycle editing (world0\<lparr>TARGET_GRID := bbc_grid\<rparr>)))"
    using editing_run by (metis prod.collapse)
  from cycle_sources_from_copy [OF this] show ?thesis using editing_run by simp
qed

end
